theory Spec2Isabelle
  imports Complex_Main "HOL-Library.Char_ord" "HOL-Library.List_Lexorder"
    "HOL-Library.Product_Lexorder"
begin

section \<open>Data model\<close>

text \<open>
  The pipeline of \<^verbatim>\<open>app.py\<close> works on pandas data frames. A frame is modelled as the list
  of its rows; a cell of a freshly loaded sheet is empty (NaN), a number, a text or a
  date-time. Amounts are real numbers (rounding of floats is outside the model). Columns
  are taken cell by cell, as pandas treats a column of objects; which dtype the loader
  infers for a column is outside the model, and so is the loader itself
  (\<^verbatim>\<open>_load_raw\<close>): the loaded sheet is the input of every definition below.
\<close>

datatype error = TypeError

text \<open>A date-time: the calendar date and the time of day (\<open>tod\<close>, in nanoseconds).\<close>

record datetime =
  year :: int
  month :: int
  day :: int
  tod :: int

datatype cell = Null | Num real | Str string | Dt datetime

text \<open>The two columns every stage keeps.\<close>

record labelled =
  Timestamp :: cell
  Nature_of_Record :: cell

text \<open>The wide sheet: the four column families of \<^verbatim>\<open>Finance\<close>.\<close>

record raw_record = labelled +
  Income_Amount :: cell
  Expense_Amount :: cell
  Transfer_Amount :: cell
  Transfer_In_Amount :: cell
  Transfer_Out_Amount :: cell
  Income_Account :: cell
  Expense_Source :: cell
  Transfer_Account :: cell
  Transfer_In_Account :: cell
  Transfer_Out_Source :: cell
  Income_Source :: cell
  Expense_Account :: cell
  Transfer_Source :: cell
  Transfer_In_Source :: cell
  Transfer_Out_Account :: cell
  Income_Note :: cell
  Expense_Note :: cell
  Transfer_Note :: cell
  Transfer_In_Note :: cell
  Transfer_Out_Note :: cell

text \<open>The frame after the family columns are coalesced and dropped.\<close>

record row = labelled +
  Amount :: cell
  Account :: cell
  Source :: cell
  Description :: cell

section \<open>Column operations\<close>

text \<open>
  Unary minus on a column, \<^verbatim>\<open>-raw["Expense Amount"]\<close>: a number is negated, NaN stays
  NaN, and a text or date-time cell has no unary minus, so Python raises TypeError and the
  whole statement fails.
\<close>

fun neg :: "cell \<Rightarrow> error + cell" where
  "neg Null = Inr Null"
| "neg (Num x) = Inr (Num (- x))"
| "neg (Str s) = Inl TypeError"
| "neg (Dt d) = Inl TypeError"

fun sequence :: "(error + 'a) list \<Rightarrow> error + 'a list" where
  "sequence [] = Inr []"
| "sequence (Inl e # xs) = Inl e"
| "sequence (Inr x # xs) = (case sequence xs of Inl e \<Rightarrow> Inl e | Inr ys \<Rightarrow> Inr (x # ys))"

text \<open>\<^verbatim>\<open>df[col] = -df[col]\<close>: the new column is computed first, then assigned.\<close>

definition neg_column ::
  "('r \<Rightarrow> cell) \<Rightarrow> ((cell \<Rightarrow> cell) \<Rightarrow> 'r \<Rightarrow> 'r) \<Rightarrow> 'r list \<Rightarrow> error + 'r list" where
  "neg_column col col_update df =
     (case sequence (map (\<lambda>r. neg (col r)) df) of
        Inl e \<Rightarrow> Inl e
      | Inr cs \<Rightarrow> Inr (map2 (\<lambda>r c. col_update (\<lambda>_. c) r) df cs))"

text \<open>\<^verbatim>\<open>.bfill(axis=1).iloc[:, 0]\<close> on one row: the first cell that is not null.\<close>

fun first_non_null :: "cell list \<Rightarrow> cell" where
  "first_non_null [] = Null"
| "first_non_null (c # cs) = (if c = Null then first_non_null cs else c)"

definition bfill_first :: "('r \<Rightarrow> cell) list \<Rightarrow> 'r \<Rightarrow> cell" where
  "bfill_first cols r = first_non_null (map (\<lambda>col. col r) cols)"

section \<open>\<^verbatim>\<open>Finance._combine_columns\<close>\<close>

definition AMOUNT_COLS :: "(raw_record \<Rightarrow> cell) list" where
  "AMOUNT_COLS = [Income_Amount, Expense_Amount, Transfer_Amount, Transfer_In_Amount,
     Transfer_Out_Amount]"

definition ACCOUNT_COLS :: "(raw_record \<Rightarrow> cell) list" where
  "ACCOUNT_COLS = [Income_Account, Expense_Source, Transfer_Account, Transfer_In_Account,
     Transfer_Out_Source]"

definition SOURCE_COLS :: "(raw_record \<Rightarrow> cell) list" where
  "SOURCE_COLS = [Income_Source, Expense_Account, Transfer_Source, Transfer_In_Source,
     Transfer_Out_Account]"

definition DESC_COLS :: "(raw_record \<Rightarrow> cell) list" where
  "DESC_COLS = [Income_Note, Expense_Note, Transfer_Note, Transfer_In_Note,
     Transfer_Out_Note]"

text \<open>The four coalesced columns of one row; the family columns are dropped.\<close>

definition coalesce :: "raw_record \<Rightarrow> row" where
  "coalesce r =
     \<lparr>Timestamp = Timestamp r, Nature_of_Record = Nature_of_Record r,
      Amount = bfill_first AMOUNT_COLS r,
      Account = bfill_first ACCOUNT_COLS r,
      Source = bfill_first SOURCE_COLS r,
      Description = bfill_first DESC_COLS r\<rparr>"

definition combine_columns :: "raw_record list \<Rightarrow> error + row list" where
  "combine_columns raw =
     (case neg_column Expense_Amount Expense_Amount_update raw of
        Inl e \<Rightarrow> Inl e
      | Inr raw1 \<Rightarrow>
          (case neg_column Transfer_Out_Amount Transfer_Out_Amount_update raw1 of
             Inl e \<Rightarrow> Inl e
           | Inr raw2 \<Rightarrow> Inr (map coalesce raw2)))"

section \<open>\<^verbatim>\<open>Finance._split_transfers\<close>\<close>

text \<open>
  Python's \<^verbatim>\<open>str.strip()\<close> removes leading and trailing white space: the characters 9 to
  13, 28 to 32, and in Latin-1 also 133 and 160.
\<close>

definition is_space :: "char \<Rightarrow> bool" where
  "is_space c = (let n = (of_char c :: nat) in
     (9 \<le> n \<and> n \<le> 13) \<or> (28 \<le> n \<and> n \<le> 32) \<or> n = 133 \<or> n = 160)"

definition strip :: "string \<Rightarrow> string" where
  "strip s = rev (dropWhile is_space (rev (dropWhile is_space s)))"

text \<open>\<^verbatim>\<open>.str.strip()\<close> gives NaN on a cell that is not a text.\<close>

fun str_strip :: "cell \<Rightarrow> string option" where
  "str_strip (Str s) = Some (strip s)"
| "str_strip c = None"

definition fillna :: "'a \<Rightarrow> 'a option \<Rightarrow> 'a" where
  "fillna d x = (case x of None \<Rightarrow> d | Some v \<Rightarrow> v)"

definition is_transfer :: "'a labelled_scheme \<Rightarrow> bool" where
  "is_transfer r = (fillna [] (str_strip (Nature_of_Record r)) = ''Transfer'')"

definition expense_leg :: "row \<Rightarrow> row" where
  "expense_leg r = r\<lparr>Source := Account r, Account := Source r,
     Nature_of_Record := Str ''Transfer-Out''\<rparr>"

definition income_leg :: "row \<Rightarrow> row" where
  "income_leg r = r\<lparr>Amount := Amount r, Nature_of_Record := Str ''Transfer-In''\<rparr>"

definition transfer_rows :: "row list \<Rightarrow> row list" where
  "transfer_rows raw = filter is_transfer raw"

definition non_transfer_rows :: "row list \<Rightarrow> row list" where
  "non_transfer_rows raw = filter (\<lambda>r. \<not> is_transfer r) raw"

definition split_transfers :: "row list \<Rightarrow> error + row list" where
  "split_transfers raw =
     (case neg_column Amount Amount_update (transfer_rows raw) of
        Inl e \<Rightarrow> Inl e
      | Inr negated \<Rightarrow>
          (let transfer_expense = map expense_leg negated;
               transfer_income = map income_leg (transfer_rows raw)
           in Inr (non_transfer_rows raw @ (transfer_expense @ transfer_income))))"

section \<open>\<^verbatim>\<open>Finance._finalise_schema\<close>\<close>









section \<open>\<^verbatim>\<open>Finance._enforce_types\<close>\<close>

text \<open>
  The canonical ledger: the same six columns, each with its type. \<open>None\<close> is the null of
  the column (NaT, NaN, NA).
\<close>

record entry =
  timestamp :: "datetime option"
  nature :: "string option"
  amount :: "real option"
  account :: "string option"
  source :: "string option"
  description :: string

text \<open>
  The parsers and printers of pandas are not part of the repository; they are parameters.
  With \<^verbatim>\<open>errors="coerce"\<close> a parser returns null where it cannot read the cell, which
  is \<open>None\<close> here.
\<close>

record coercions =
  parse_datetime :: "cell \<Rightarrow> datetime option"
  parse_numeric :: "cell \<Rightarrow> real option"
  to_str :: "cell \<Rightarrow> string"





section \<open>\<^verbatim>\<open>Finance.run\<close>\<close>


section \<open>\<^verbatim>\<open>Finance.monthly_profit_and_loss\<close>\<close>

text \<open>
  The mask compares \<^verbatim>\<open>.dt.year\<close> and \<^verbatim>\<open>.dt.month\<close> with the arguments; on NaT both are
  NaN and the comparisons are false.
\<close>

definition mask :: "int \<Rightarrow> int \<Rightarrow> entry \<Rightarrow> bool" where
  "mask month' year' r =
     (case timestamp r of
        None \<Rightarrow> False
      | Some d \<Rightarrow> year d = year' \<and> month d = month')"

text \<open>\<^verbatim>\<open>sum\<close> skips NaN: a null Amount adds nothing.\<close>

definition nansum :: "real option list \<Rightarrow> real" where
  "nansum vs = sum_list (map (fillna 0) vs)"

text \<open>
  \<^verbatim>\<open>pivot_table(index=["Nature of Record", "Account"], values="Amount", aggfunc="sum",
  fill_value=0.0)\<close>: the rows are grouped by the two keys (rows with a null key are left
  out), the groups are the key pairs that occur, in sorted order, and each group's Amounts
  are summed. No \<^verbatim>\<open>columns\<close> are given, so the table has no cell without a group and
  \<^verbatim>\<open>fill_value\<close> has nothing to fill.
\<close>

definition group_key :: "entry \<Rightarrow> (string \<times> string) option" where
  "group_key r =
     (case (nature r, account r) of
        (Some n, Some a) \<Rightarrow> Some (n, a)
      | _ \<Rightarrow> None)"

definition pivot_table :: "entry list \<Rightarrow> ((string \<times> string) \<times> real) list" where
  "pivot_table df =
     (let keys = sort (remdups (concat (map (\<lambda>r. case group_key r of None \<Rightarrow> [] | Some k \<Rightarrow> [k]) df)))
      in map (\<lambda>k. (k, nansum (map amount (filter (\<lambda>r. group_key r = Some k) df)))) keys)"

definition monthly_profit_and_loss ::
  "entry list \<Rightarrow> int \<Rightarrow> int \<Rightarrow> ((string \<times> string) \<times> real) list" where
  "monthly_profit_and_loss df month' year' =
     (let df_m = filter (mask month' year') df in pivot_table df_m)"

section \<open>\<^verbatim>\<open>Graph.expense_pie_topN\<close>\<close>








section \<open>Notions used in the statements\<close>

text \<open>The cells unary minus accepts: numbers and NaN.\<close>

fun negatable :: "cell \<Rightarrow> bool" where
  "negatable Null = True"
| "negatable (Num x) = True"
| "negatable (Str s) = False"
| "negatable (Dt d) = False"

text \<open>The cell a successful unary minus leaves in place of \<open>c\<close>.\<close>

fun negated :: "cell \<Rightarrow> cell" where
  "negated (Num x) = Num (- x)"
| "negated c = c"

text \<open>
  What it means for \<open>v\<close> to be the first non-null value of the cells \<open>cs\<close> scanned from
  the left: null when all are null, else the leftmost cell that is not null.
\<close>

definition first_non_null_of :: "cell list \<Rightarrow> cell \<Rightarrow> bool" where
  "first_non_null_of cs v \<longleftrightarrow>
     (if \<forall>c\<in>set cs. c = Null then v = Null
      else \<exists>i<length cs. v = cs ! i \<and> cs ! i \<noteq> Null \<and> (\<forall>j<i. cs ! j = Null))"




section \<open>Example inputs\<close>

text \<open>Rows of the wide sheet: an expense of 150, a transfer of 500, an expense whose amount is a text.\<close>

definition blank :: raw_record where
  "blank = \<lparr>Timestamp = Null, Nature_of_Record = Null,
     Income_Amount = Null, Expense_Amount = Null, Transfer_Amount = Null,
     Transfer_In_Amount = Null, Transfer_Out_Amount = Null,
     Income_Account = Null, Expense_Source = Null, Transfer_Account = Null,
     Transfer_In_Account = Null, Transfer_Out_Source = Null,
     Income_Source = Null, Expense_Account = Null, Transfer_Source = Null,
     Transfer_In_Source = Null, Transfer_Out_Account = Null,
     Income_Note = Null, Expense_Note = Null, Transfer_Note = Null,
     Transfer_In_Note = Null, Transfer_Out_Note = Null\<rparr>"

definition raw_expense :: raw_record where
  "raw_expense = blank\<lparr>Timestamp := Dt \<lparr>year = 2025, month = 11, day = 2, tod = 0\<rparr>,
     Nature_of_Record := Str ''Expense'', Expense_Amount := Num 150,
     Expense_Source := Str ''Food'', Expense_Account := Str ''Bank''\<rparr>"

definition raw_transfer :: raw_record where
  "raw_transfer = blank\<lparr>Timestamp := Dt \<lparr>year = 2025, month = 11, day = 3, tod = 0\<rparr>,
     Nature_of_Record := Str ''Transfer'', Transfer_Amount := Num 500,
     Transfer_Account := Str ''Savings'', Transfer_Source := Str ''Bank'',
     Transfer_Note := Str ''monthly''\<rparr>"

definition raw_both :: raw_record where
  "raw_both = raw_expense\<lparr>Income_Amount := Num 70\<rparr>"

definition raw_text_amount :: raw_record where
  "raw_text_amount = raw_expense\<lparr>Expense_Amount := Str ''12 euros''\<rparr>"

text \<open>Coercions that read no text: enough to run the pipeline on cells that need no parsing.\<close>

definition no_parse :: coercions where
  "no_parse = \<lparr>parse_datetime = (\<lambda>c. None), parse_numeric = (\<lambda>c. None), to_str = (\<lambda>c. [])\<rparr>"







text \<open>A ledger with an expense in October and incomes in November 2025.\<close>

definition ledger_entry ::
  "int \<Rightarrow> int \<Rightarrow> string \<Rightarrow> real \<Rightarrow> string \<Rightarrow> string \<Rightarrow> entry" where
  "ledger_entry y m n v a s =
     \<lparr>timestamp = Some \<lparr>year = y, month = m, day = 1, tod = 0\<rparr>, nature = Some n,
      amount = Some v, account = Some a, source = Some s, description = []\<rparr>"

definition november_ledger :: "entry list" where
  "november_ledger =
     [ledger_entry 2025 10 ''Expense'' (- 40) ''Food'' ''Bank'',
      ledger_entry 2025 11 ''Income'' 1000 ''Bank'' ''Employer'',
      ledger_entry 2025 11 ''Income'' 200 ''Bank'' ''Refunds'',
      (ledger_entry 2025 11 ''Income'' 5 ''Cash'' ''Gift'')\<lparr>timestamp := None\<rparr>]"

text \<open>Five sources with the sums 100, 80, 60, 40, 20, and a source with a purchase and a refund.\<close>

definition five_sources :: "entry list" where
  "five_sources =
     [ledger_entry 2025 11 ''Expense'' (- 60) ''Food'' ''C'',
      ledger_entry 2025 11 ''Expense'' (- 100) ''Rent'' ''A'',
      ledger_entry 2025 11 ''Expense'' (- 20) ''Food'' ''E'',
      ledger_entry 2025 11 ''Expense'' (- 50) ''Food'' ''B'',
      ledger_entry 2025 11 ''Expense'' (- 40) ''Food'' ''D'',
      ledger_entry 2025 11 ''Expense'' (- 30) ''Fun'' ''B'']"

definition refund_example :: "entry list" where
  "refund_example =
     [ledger_entry 2025 11 ''Expense'' (- 100) ''Food'' ''Shop'',
      ledger_entry 2025 11 ''Expense'' 40 ''Food'' ''Shop'']"

section \<open>Verified properties\<close>

subsection \<open>Negating a column\<close>

lemma sequence_map_Inr: "sequence (map Inr ys) = Inr ys"
  by (induction ys) auto

lemma sequence_Inr: "sequence xs = Inr ys \<longleftrightarrow> xs = map Inr ys"
proof
  show "sequence xs = Inr ys \<Longrightarrow> xs = map Inr ys"
    by (induction xs arbitrary: ys rule: sequence.induct) (auto split: sum.splits)
qed (simp add: sequence_map_Inr)

lemma sequence_Inl: "sequence xs = Inl e \<Longrightarrow> Inl e \<in> set xs"
  by (induction xs rule: sequence.induct) (auto split: sum.splits)

lemma neg_Inr: "neg c = Inr c' \<longleftrightarrow> (c = Null \<and> c' = Null) \<or> (\<exists>x. c = Num x \<and> c' = Num (- x))"
  by (cases c) auto

lemma neg_Inl: "neg c = Inl e \<longleftrightarrow> \<not> negatable c"
  by (cases c; cases e) auto

lemma neg_column_Inr:
  assumes "neg_column col upd df = Inr df'"
  shows "length df' = length df"
    and "i < length df \<Longrightarrow> \<exists>c. neg (col (df ! i)) = Inr c \<and> df' ! i = upd (\<lambda>_. c) (df ! i)"
proof -
  from assms obtain cs where cs: "sequence (map (\<lambda>r. neg (col r)) df) = Inr cs"
    and df': "df' = map2 (\<lambda>r c. upd (\<lambda>_. c) r) df cs"
    by (auto simp: neg_column_def split: sum.splits)
  from cs have m: "map (\<lambda>r. neg (col r)) df = map Inr cs" by (simp add: sequence_Inr)
  then have len: "length cs = length df" by (metis length_map)
  show "length df' = length df" by (simp add: df' len)
  assume i: "i < length df"
  from m i len have "neg (col (df ! i)) = Inr (cs ! i)"
    by (metis nth_map)
  moreover have "df' ! i = upd (\<lambda>_. cs ! i) (df ! i)"
    using i len by (simp add: df')
  ultimately show "\<exists>c. neg (col (df ! i)) = Inr c \<and> df' ! i = upd (\<lambda>_. c) (df ! i)" by blast
qed

lemma neg_column_Inl:
  assumes "neg_column col upd df = Inl e"
  shows "\<exists>r\<in>set df. \<not> negatable (col r)"
proof -
  from assms have "sequence (map (\<lambda>r. neg (col r)) df) = Inl e"
    by (auto simp: neg_column_def split: sum.splits)
  then have "Inl e \<in> set (map (\<lambda>r. neg (col r)) df)" by (rule sequence_Inl)
  then obtain r where "r \<in> set df" "neg (col r) = Inl e" by auto
  then show ?thesis by (auto simp: neg_Inl)
qed

lemma neg_column_returns:
  assumes "\<forall>r\<in>set df. negatable (col r)"
  shows "\<exists>df'. neg_column col upd df = Inr df'"
proof (cases "neg_column col upd df")
  case (Inl e)
  then show ?thesis using neg_column_Inl assms by blast
next
  case (Inr df')
  then show ?thesis by blast
qed

subsection \<open>The shape of the split frame\<close>

lemma split_transfers_Inr:
  assumes "split_transfers raw = Inr df"
  obtains negated where
    "neg_column Amount Amount_update (transfer_rows raw) = Inr negated"
    "df = non_transfer_rows raw @ map expense_leg negated @ map income_leg (transfer_rows raw)"
  using assms by (auto simp: split_transfers_def split: sum.splits)

lemma split_transfers_Inl:
  assumes "split_transfers raw = Inl e"
  shows "\<exists>r\<in>set (transfer_rows raw). \<not> negatable (Amount r)"
proof -
  from assms have "neg_column Amount Amount_update (transfer_rows raw) = Inl e"
    by (auto simp: split_transfers_def split: sum.splits)
  then show ?thesis by (rule neg_column_Inl)
qed

lemma split_transfers_returns_iff:
  "(\<exists>df. split_transfers raw = Inr df) \<longleftrightarrow> (\<forall>r\<in>set (transfer_rows raw). negatable (Amount r))"
proof
  assume "\<exists>df. split_transfers raw = Inr df"
  then obtain df where df: "split_transfers raw = Inr df" ..
  then obtain negated where n: "neg_column Amount Amount_update (transfer_rows raw) = Inr negated"
    by (rule split_transfers_Inr)
  show "\<forall>r\<in>set (transfer_rows raw). negatable (Amount r)"
  proof
    fix r assume "r \<in> set (transfer_rows raw)"
    then obtain i where i: "i < length (transfer_rows raw)" "transfer_rows raw ! i = r"
      by (auto simp: in_set_conv_nth)
    from neg_column_Inr(2)[OF n i(1)] i(2) obtain c where "neg (Amount r) = Inr c" by auto
    then show "negatable (Amount r)" by (cases "Amount r") auto
  qed
next
  assume "\<forall>r\<in>set (transfer_rows raw). negatable (Amount r)"
  then show "\<exists>df. split_transfers raw = Inr df"
    by (cases "split_transfers raw") (auto dest: split_transfers_Inl)
qed





subsection \<open>The transfer test\<close>





subsection \<open>Evaluating the examples\<close>



lemmas raw_example_defs = blank_def raw_expense_def raw_transfer_def raw_both_def
  raw_text_amount_def no_parse_def

lemmas combine_defs = combine_columns_def neg_column_def coalesce_def bfill_first_def
  AMOUNT_COLS_def ACCOUNT_COLS_def SOURCE_COLS_def DESC_COLS_def


subsection \<open>The transfer splitter\<close>

text \<open>
  The splitter returns a frame unless unary minus fails on the Amount of a Transfer row
  (\<open>split_transfers_returns_iff\<close>); each statement below says so in its \<open>Inl\<close> branch.
  In the returned frame the non-transfer rows come first, then the Transfer-Out legs, then
  the Transfer-In legs, each block in the order of the input.
\<close>










subsection \<open>Coalescing\<close>

lemma neg_negated: "neg c = Inr c' \<Longrightarrow> c' = negated c"
  by (cases c) auto

lemma first_non_null_spec: "first_non_null_of cs (first_non_null cs)"
proof (induction cs)
  case Nil
  then show ?case by (simp add: first_non_null_of_def)
next
  case (Cons c cs)
  show ?case
  proof (cases "c = Null")
    case False
    then have "\<exists>i<length (c # cs). c = (c # cs) ! i \<and> (c # cs) ! i \<noteq> Null \<and> (\<forall>j<i. (c # cs) ! j = Null)"
      by (intro exI[of _ 0]) simp
    with False show ?thesis by (auto simp: first_non_null_of_def)
  next
    case True
    show ?thesis
    proof (cases "\<forall>c\<in>set cs. c = Null")
      case all: True
      with Cons True show ?thesis by (simp add: first_non_null_of_def)
    next
      case some: False
      with Cons obtain i where i: "i < length cs" "first_non_null cs = cs ! i" "cs ! i \<noteq> Null"
        "\<forall>j<i. cs ! j = Null" by (auto simp: first_non_null_of_def)
      have "\<forall>j<Suc i. (c # cs) ! j = Null"
        using True i(4) by (auto simp: nth_Cons split: nat.splits)
      with i have "Suc i < length (c # cs) \<and> first_non_null cs = (c # cs) ! Suc i \<and>
        (c # cs) ! Suc i \<noteq> Null \<and> (\<forall>j<Suc i. (c # cs) ! j = Null)" by simp
      then have ex: "\<exists>i<length (c # cs). first_non_null cs = (c # cs) ! i \<and>
        (c # cs) ! i \<noteq> Null \<and> (\<forall>j<i. (c # cs) ! j = Null)" by blast
      from some have ne: "\<not> (\<forall>x\<in>set (c # cs). x = Null)" by auto
      have fn: "first_non_null (c # cs) = first_non_null cs" using True by simp
      show ?thesis unfolding first_non_null_of_def fn if_not_P[OF ne] by (rule ex)
    qed
  qed
qed

lemma first_non_null_of_unique:
  assumes "first_non_null_of cs v" "first_non_null_of cs w"
  shows "v = w"
proof (cases "\<forall>c\<in>set cs. c = Null")
  case True
  with assms show ?thesis by (simp add: first_non_null_of_def)
next
  case False
  with assms obtain i k where
    i: "i < length cs" "v = cs ! i" "cs ! i \<noteq> Null" "\<forall>j<i. cs ! j = Null" and
    k: "k < length cs" "w = cs ! k" "cs ! k \<noteq> Null" "\<forall>j<k. cs ! j = Null"
    by (auto simp: first_non_null_of_def)
  have "i = k"
  proof (rule ccontr)
    assume "i \<noteq> k"
    then consider "i < k" | "k < i" by linarith
    then show False using i k by cases auto
  qed
  with i k show ?thesis by simp
qed

lemma combine_columns_Inl:
  assumes "combine_columns raw = Inl e"
  shows "\<exists>r\<in>set raw. \<not> negatable (Expense_Amount r) \<or> \<not> negatable (Transfer_Out_Amount r)"
proof (cases "neg_column Expense_Amount Expense_Amount_update raw")
  case (Inl e')
  then show ?thesis by (blast dest: neg_column_Inl)
next
  case (Inr raw1)
  with assms have "neg_column Transfer_Out_Amount Transfer_Out_Amount_update raw1 = Inl e"
    by (auto simp: combine_columns_def split: sum.splits)
  then obtain r1 where r1: "r1 \<in> set raw1" "\<not> negatable (Transfer_Out_Amount r1)"
    by (blast dest: neg_column_Inl)
  then obtain i where i: "i < length raw1" "raw1 ! i = r1" by (auto simp: in_set_conv_nth)
  with neg_column_Inr[OF Inr] have len: "i < length raw" by simp
  from neg_column_Inr(2)[OF Inr len] i(2) obtain c where
    "r1 = (raw ! i)\<lparr>Expense_Amount := c\<rparr>" by auto
  with r1 have "\<not> negatable (Transfer_Out_Amount (raw ! i))" by simp
  with len show ?thesis by (metis nth_mem)
qed

lemma combine_columns_Inr:
  assumes c: "combine_columns raw = Inr df"
  shows "length df = length raw"
    and "i < length raw \<Longrightarrow>
      negatable (Expense_Amount (raw ! i)) \<and> negatable (Transfer_Out_Amount (raw ! i)) \<and>
      df ! i = coalesce ((raw ! i)\<lparr>Expense_Amount := negated (Expense_Amount (raw ! i)),
                 Transfer_Out_Amount := negated (Transfer_Out_Amount (raw ! i))\<rparr>)"
proof -
  from c obtain raw1 raw2 where
    r1: "neg_column Expense_Amount Expense_Amount_update raw = Inr raw1" and
    r2: "neg_column Transfer_Out_Amount Transfer_Out_Amount_update raw1 = Inr raw2" and
    df: "df = map coalesce raw2"
    by (auto simp: combine_columns_def split: sum.splits)
  have l1: "length raw1 = length raw" by (rule neg_column_Inr(1)[OF r1])
  have l2: "length raw2 = length raw1" by (rule neg_column_Inr(1)[OF r2])
  show "length df = length raw" by (simp add: df l1 l2)
  assume i: "i < length raw"
  from neg_column_Inr(2)[OF r1 i] obtain e where
    e: "neg (Expense_Amount (raw ! i)) = Inr e" "raw1 ! i = (raw ! i)\<lparr>Expense_Amount := e\<rparr>"
    by auto
  from i l1 have i1: "i < length raw1" by simp
  from neg_column_Inr(2)[OF r2 i1] obtain t where
    t: "neg (Transfer_Out_Amount (raw1 ! i)) = Inr t"
       "raw2 ! i = (raw1 ! i)\<lparr>Transfer_Out_Amount := t\<rparr>"
    by auto
  from t(1) e(2) have t': "neg (Transfer_Out_Amount (raw ! i)) = Inr t" by simp
  have "negatable (Expense_Amount (raw ! i))" using e(1) by (cases "Expense_Amount (raw ! i)") auto
  moreover have "negatable (Transfer_Out_Amount (raw ! i))"
    using t' by (cases "Transfer_Out_Amount (raw ! i)") auto
  moreover have "df ! i = coalesce (raw2 ! i)" using i l1 l2 by (simp add: df)
  ultimately show "negatable (Expense_Amount (raw ! i)) \<and> negatable (Transfer_Out_Amount (raw ! i)) \<and>
      df ! i = coalesce ((raw ! i)\<lparr>Expense_Amount := negated (Expense_Amount (raw ! i)),
                 Transfer_Out_Amount := negated (Transfer_Out_Amount (raw ! i))\<rparr>)"
    using e t neg_negated[OF e(1)] neg_negated[OF t'] by simp
qed

lemma combine_columns_returns_iff:
  "(\<exists>df. combine_columns raw = Inr df) \<longleftrightarrow>
   (\<forall>r\<in>set raw. negatable (Expense_Amount r) \<and> negatable (Transfer_Out_Amount r))"
proof
  assume "\<exists>df. combine_columns raw = Inr df"
  then obtain df where df: "combine_columns raw = Inr df" ..
  show "\<forall>r\<in>set raw. negatable (Expense_Amount r) \<and> negatable (Transfer_Out_Amount r)"
  proof
    fix r assume "r \<in> set raw"
    then obtain i where "i < length raw" "raw ! i = r" by (auto simp: in_set_conv_nth)
    with combine_columns_Inr(2)[OF df, of i]
    show "negatable (Expense_Amount r) \<and> negatable (Transfer_Out_Amount r)" by auto
  qed
next
  assume "\<forall>r\<in>set raw. negatable (Expense_Amount r) \<and> negatable (Transfer_Out_Amount r)"
  then show "\<exists>df. combine_columns raw = Inr df"
    by (cases "combine_columns raw") (auto dest: combine_columns_Inl)
qed

lemma coalesce_fields:
  "first_non_null_of [Income_Amount r, Expense_Amount r, Transfer_Amount r,
      Transfer_In_Amount r, Transfer_Out_Amount r] (Amount (coalesce r))"
  "first_non_null_of [Income_Account r, Expense_Source r, Transfer_Account r,
      Transfer_In_Account r, Transfer_Out_Source r] (Account (coalesce r))"
  "first_non_null_of [Income_Source r, Expense_Account r, Transfer_Source r,
      Transfer_In_Source r, Transfer_Out_Account r] (Source (coalesce r))"
  "first_non_null_of [Income_Note r, Expense_Note r, Transfer_Note r,
      Transfer_In_Note r, Transfer_Out_Note r] (Description (coalesce r))"
  using first_non_null_spec[of "map (\<lambda>col. col r) AMOUNT_COLS"]
    first_non_null_spec[of "map (\<lambda>col. col r) ACCOUNT_COLS"]
    first_non_null_spec[of "map (\<lambda>col. col r) SOURCE_COLS"]
    first_non_null_spec[of "map (\<lambda>col. col r) DESC_COLS"]
  by (simp_all add: coalesce_def bfill_first_def AMOUNT_COLS_def ACCOUNT_COLS_def
      SOURCE_COLS_def DESC_COLS_def)

text \<open>
  Claim C4. In each of the four families the coalesced field is the first non-null value of
  the family's columns scanned in the order Income, Expense, Transfer, Transfer-In,
  Transfer-Out, and null when all five are null; a row with an Income Amount coalesces to
  it whatever its Expense Amount. The Amount columns are scanned as the sign normaliser
  left them, Expense Amount and Transfer-Out Amount negated in place. The stage returns
  unless unary minus fails on one of these two columns.
\<close>

theorem coalesce_first_non_null:
  "case combine_columns raw of
     Inl e \<Rightarrow> \<exists>r\<in>set raw. \<not> negatable (Expense_Amount r) \<or> \<not> negatable (Transfer_Out_Amount r)
   | Inr df \<Rightarrow>
       length df = length raw \<and>
       (\<forall>i<length raw.
          (let r = raw ! i; out = df ! i
           in first_non_null_of [Income_Amount r, negated (Expense_Amount r), Transfer_Amount r,
                Transfer_In_Amount r, negated (Transfer_Out_Amount r)] (Amount out) \<and>
              first_non_null_of [Income_Account r, Expense_Source r, Transfer_Account r,
                Transfer_In_Account r, Transfer_Out_Source r] (Account out) \<and>
              first_non_null_of [Income_Source r, Expense_Account r, Transfer_Source r,
                Transfer_In_Source r, Transfer_Out_Account r] (Source out) \<and>
              first_non_null_of [Income_Note r, Expense_Note r, Transfer_Note r,
                Transfer_In_Note r, Transfer_Out_Note r] (Description out) \<and>
              (Income_Amount r \<noteq> Null \<longrightarrow> Amount out = Income_Amount r)))"
proof (cases "combine_columns raw")
  case (Inl e)
  from combine_columns_Inl[OF Inl] show ?thesis unfolding Inl by simp
next
  case (Inr df)
  have "first_non_null_of [Income_Amount (raw ! i), negated (Expense_Amount (raw ! i)),
            Transfer_Amount (raw ! i), Transfer_In_Amount (raw ! i),
            negated (Transfer_Out_Amount (raw ! i))] (Amount (df ! i)) \<and>
        first_non_null_of [Income_Account (raw ! i), Expense_Source (raw ! i),
            Transfer_Account (raw ! i), Transfer_In_Account (raw ! i),
            Transfer_Out_Source (raw ! i)] (Account (df ! i)) \<and>
        first_non_null_of [Income_Source (raw ! i), Expense_Account (raw ! i),
            Transfer_Source (raw ! i), Transfer_In_Source (raw ! i),
            Transfer_Out_Account (raw ! i)] (Source (df ! i)) \<and>
        first_non_null_of [Income_Note (raw ! i), Expense_Note (raw ! i), Transfer_Note (raw ! i),
            Transfer_In_Note (raw ! i), Transfer_Out_Note (raw ! i)] (Description (df ! i)) \<and>
        (Income_Amount (raw ! i) \<noteq> Null \<longrightarrow> Amount (df ! i) = Income_Amount (raw ! i))"
    if i: "i < length raw" for i
  proof -
    let ?r = "(raw ! i)\<lparr>Expense_Amount := negated (Expense_Amount (raw ! i)),
                 Transfer_Out_Amount := negated (Transfer_Out_Amount (raw ! i))\<rparr>"
    from combine_columns_Inr(2)[OF Inr i] have d: "df ! i = coalesce ?r" by simp
    have "Income_Amount (raw ! i) \<noteq> Null \<longrightarrow> Amount (coalesce ?r) = Income_Amount (raw ! i)"
      by (simp add: coalesce_def bfill_first_def AMOUNT_COLS_def)
    with coalesce_fields[of ?r] show ?thesis unfolding d by simp
  qed
  with combine_columns_Inr(1)[OF Inr] Inr show ?thesis by (simp add: Let_def)
qed

theorem coalesce_first_non_null_witness:
  "\<exists>df. combine_columns [raw_both, raw_transfer] = Inr df \<and> length df = 2 \<and>
     Amount (df ! 0) = Num 70 \<and> Amount (df ! 1) = Num 500 \<and> Account (df ! 1) = Str ''Savings'' \<and>
     Description (df ! 0) = Null"
  using coalesce_first_non_null[of "[raw_both, raw_transfer]"]
  by (simp add: raw_example_defs combine_defs)

subsection \<open>The whole run\<close>







subsection \<open>The type enforcer\<close>







subsection \<open>Monthly profit and loss\<close>

lemmas ledger_defs = ledger_entry_def november_ledger_def five_sources_def refund_example_def

lemmas pnl_defs = monthly_profit_and_loss_def pivot_table_def group_key_def mask_def
  nansum_def fillna_def

lemma pivot_table_keys:
  "map fst (pivot_table df) =
     sort (remdups (concat (map (\<lambda>r. case group_key r of None \<Rightarrow> [] | Some k \<Rightarrow> [k]) df)))"
  by (simp add: pivot_table_def Let_def comp_def)

lemma pivot_table_key_set:
  "set (map fst (pivot_table df)) = {k. \<exists>r\<in>set df. group_key r = Some k}"
  unfolding pivot_table_keys by (auto split: option.splits)

lemma pivot_table_sorted: "sorted (map fst (pivot_table df))"
  unfolding pivot_table_keys by simp

lemma pivot_table_distinct: "distinct (map fst (pivot_table df))"
  unfolding pivot_table_keys by simp

lemma pivot_table_lookup:
  "map_of (pivot_table df) k =
     (if \<exists>r\<in>set df. group_key r = Some k
      then Some (nansum (map amount (filter (\<lambda>r. group_key r = Some k) df)))
      else None)"
proof (cases "\<exists>r\<in>set df. group_key r = Some k")
  case True
  then have "k \<in> set (map fst (pivot_table df))" unfolding pivot_table_key_set by simp
  then have k: "k \<in> set (sort (remdups (concat (map (\<lambda>r. case group_key r of None \<Rightarrow> [] | Some k \<Rightarrow> [k]) df))))"
    unfolding pivot_table_keys .
  have "map_of (map (\<lambda>k. (k, f k)) ks) k = Some (f k)" if "k \<in> set ks" for f :: "_ \<Rightarrow> real" and ks
    using that by (induction ks) auto
  from this[OF k] True show ?thesis by (simp add: pivot_table_def Let_def)
next
  case False
  then have "k \<notin> set (map fst (pivot_table df))" unfolding pivot_table_key_set by simp
  then have "map_of (pivot_table df) k = None" by (simp add: map_of_eq_None_iff)
  with False show ?thesis by simp
qed

lemma group_key_Some:
  "group_key r = Some (n, a) \<longleftrightarrow> nature r = Some n \<and> account r = Some a"
  by (auto simp: group_key_def split: option.splits)

text \<open>
  Claim C7, as amended. For every month and year the result is built from the entries
  whose Timestamp lies in that month: it has one group for each pair (Nature of Record,
  Account) that occurs among them, with the sum of their Amounts (a null Amount adds
  nothing), in sorted order and without repetition. A pair that does not occur among the
  month's entries has no group.
\<close>

theorem monthly_profit_and_loss_groups:
  "map_of (monthly_profit_and_loss df month' year') (n, a) =
     (if \<exists>r\<in>set df. mask month' year' r \<and> nature r = Some n \<and> account r = Some a
      then Some (nansum (map amount
             (filter (\<lambda>r. mask month' year' r \<and> nature r = Some n \<and> account r = Some a) df)))
      else None) \<and>
   sorted (map fst (monthly_profit_and_loss df month' year')) \<and>
   distinct (map fst (monthly_profit_and_loss df month' year')) \<and>
   (\<forall>r. mask month' year' r \<longleftrightarrow>
      (\<exists>d. timestamp r = Some d \<and> year d = year' \<and> month d = month'))"
proof (intro conjI)
  have f: "filter (\<lambda>r. group_key r = Some (n, a)) (filter (mask month' year') df) =
      filter (\<lambda>r. mask month' year' r \<and> nature r = Some n \<and> account r = Some a) df"
    by (simp add: group_key_Some conj_commute conj_left_commute)
  show "map_of (monthly_profit_and_loss df month' year') (n, a) =
     (if \<exists>r\<in>set df. mask month' year' r \<and> nature r = Some n \<and> account r = Some a
      then Some (nansum (map amount
             (filter (\<lambda>r. mask month' year' r \<and> nature r = Some n \<and> account r = Some a) df)))
      else None)"
    unfolding monthly_profit_and_loss_def Let_def pivot_table_lookup f
    by (auto simp: group_key_Some)
  show "sorted (map fst (monthly_profit_and_loss df month' year'))"
    by (simp add: monthly_profit_and_loss_def pivot_table_sorted)
  show "distinct (map fst (monthly_profit_and_loss df month' year'))"
    by (simp add: monthly_profit_and_loss_def pivot_table_distinct)
  show "\<forall>r. mask month' year' r \<longleftrightarrow>
      (\<exists>d. timestamp r = Some d \<and> year d = year' \<and> month d = month')"
    by (auto simp: mask_def split: option.splits)
qed

theorem monthly_profit_and_loss_groups_witness:
  "map_of (monthly_profit_and_loss november_ledger 11 2025) (''Income'', ''Bank'') = Some 1200 \<and>
   map_of (monthly_profit_and_loss november_ledger 11 2025) (''Expense'', ''Food'') = None"
  using monthly_profit_and_loss_groups[of november_ledger 11 2025 "''Income''" "''Bank''"]
    monthly_profit_and_loss_groups[of november_ledger 11 2025 "''Expense''" "''Food''"]
  by (simp add: ledger_defs mask_def nansum_def fillna_def)

text \<open>
  Claim C7 as stated fails: November 2025 has incomes on the account Bank and no expense,
  and the result has no Expense group for Bank, with or without the value 0.
\<close>

theorem absent_groups_are_omitted:
  "monthly_profit_and_loss november_ledger 11 2025 = [((''Income'', ''Bank''), 1200)] \<and>
   map_of (monthly_profit_and_loss november_ledger 11 2025) (''Expense'', ''Bank'') \<noteq> Some 0"
  by (simp add: ledger_defs pnl_defs)

text \<open>
  Claim C10. An entry with a null Timestamp never passes the month filter, for any month
  and year: the result is the one computed from the entries that have a Timestamp.
\<close>

theorem null_timestamp_excluded:
  "(\<forall>r\<in>set df. timestamp r = None \<longrightarrow> \<not> mask month' year' r) \<and>
   monthly_profit_and_loss df month' year' =
     monthly_profit_and_loss (filter (\<lambda>r. timestamp r \<noteq> None) df) month' year'"
proof
  show "\<forall>r\<in>set df. timestamp r = None \<longrightarrow> \<not> mask month' year' r"
    by (simp add: mask_def)
  have "filter (mask month' year') (filter (\<lambda>r. timestamp r \<noteq> None) df) =
      filter (mask month' year') df"
    by (auto simp: mask_def intro!: filter_cong split: option.splits)
  then show "monthly_profit_and_loss df month' year' =
     monthly_profit_and_loss (filter (\<lambda>r. timestamp r \<noteq> None) df) month' year'"
    by (simp add: monthly_profit_and_loss_def)
qed

theorem null_timestamp_excluded_witness:
  "monthly_profit_and_loss november_ledger 11 2025 =
     monthly_profit_and_loss (butlast november_ledger) 11 2025 \<and>
   map_of (monthly_profit_and_loss november_ledger 11 2025) (''Income'', ''Cash'') = None"
  using null_timestamp_excluded[of november_ledger 11 2025]
  by (simp add: ledger_defs pnl_defs)

subsection \<open>The top groups of the pie chart\<close>



















end
